theory Spec2Isabelle
  imports Main "HOL-Library.AList" "HOL-Library.Sublist"
begin

section \<open>Python values and exceptions\<close>

text \<open>
  The exceptions the scraper can meet. \<open>URLError\<close> stands for whatever
  \<open>urlopen\<close> raises, \<open>OSError\<close> for whatever \<open>DataFrame.to_csv\<close> raises.
\<close>

datatype exn =
    AttributeError
  | IndexError
  | ValueError
  | TypeError
  | UnboundLocalError
  | ZeroDivisionError
  | URLError
  | OSError

text \<open>
  A computation that may raise is a value of \<open>exn + 'a\<close>. \<open>py_then\<close> sequences two
  of them, \<open>except_default\<close> is a bare \<open>try: ... except: x = d\<close>.
\<close>

definition py_then :: "exn + 'a \<Rightarrow> ('a \<Rightarrow> exn + 'b) \<Rightarrow> exn + 'b" where
  "py_then r f = (case r of Inl e \<Rightarrow> Inl e | Inr v \<Rightarrow> f v)"

definition except_default :: "exn + 'a \<Rightarrow> 'a \<Rightarrow> 'a" where
  "except_default r d = (case r of Inl e \<Rightarrow> d | Inr v \<Rightarrow> v)"

text \<open>
  The values a listing record holds. \<open>NaN\<close> is \<open>np.nan\<close>, the missing sentinel.
  Floats are kept abstract in the type parameter: \<open>float()\<close> is a parameter of
  the extraction functions.
\<close>

datatype 'f pyval =
    NaN
  | VStr string
  | VInt int
  | VFloat 'f
  | VList "'f pyval list"
  | VDict "(string \<times> 'f pyval) list"

subsection \<open>Lists and dictionaries\<close>

text \<open>\<open>xs[i]\<close>: a negative index counts from the end, out of range raises.\<close>

definition py_index :: "'a list \<Rightarrow> int \<Rightarrow> exn + 'a" where
  "py_index xs i =
     (if 0 \<le> i \<and> i < int (length xs) then Inr (xs ! nat i)
      else if i < 0 \<and> - i \<le> int (length xs) then Inr (xs ! nat (int (length xs) + i))
      else Inl IndexError)"

text \<open>
  A \<open>dict\<close> is an association list in insertion order with distinct keys:
  \<open>d[k] = v\<close> is \<open>AList.update k v d\<close>, which overwrites in place or appends.
\<close>

type_synonym 'v py_dict = "(string \<times> 'v) list"

definition dict_update :: "'v py_dict \<Rightarrow> (string \<times> 'v) list \<Rightarrow> 'v py_dict" where
  "dict_update d ps = foldl (\<lambda>acc (k, v). AList.update k v acc) d ps"

definition dict_of :: "(string \<times> 'v) list \<Rightarrow> 'v py_dict" where
  "dict_of ps = dict_update [] ps"

subsection \<open>Strings\<close>

text \<open>
  A \<open>char\<close> is read as a code point below 256, so a \<open>string\<close> is Python text
  within Latin-1; text with code points from 256 on is not representable here.
  \<open>isspace\<close> is \<open>str.isspace\<close> on that range, the test that \<open>str.split()\<close> and
  the splitting of a \<open>class\<close> attribute use: the ASCII controls 9 to 13 and 28 to
  31, the space, U+0085 and U+00A0.
\<close>

definition isspace :: "char \<Rightarrow> bool" where
  "isspace c = (c \<in> set [CHR 0x09, CHR 0x0A, CHR 0x0B, CHR 0x0C, CHR 0x0D,
                          CHR 0x1C, CHR 0x1D, CHR 0x1E, CHR 0x1F, CHR '' '',
                          CHR 0x85, CHR 0xA0])"

text \<open>\<open>s.split(c)\<close> for a one-character separator, the only kind the scraper uses.\<close>

fun split_sep :: "char \<Rightarrow> string \<Rightarrow> string list" where
  "split_sep c [] = [[]]"
| "split_sep c (x # xs) =
     (if x = c then [] # split_sep c xs
      else (case split_sep c xs of
              [] \<Rightarrow> [[x]]
            | w # ws \<Rightarrow> (x # w) # ws))"

text \<open>\<open>s.split()\<close>: the maximal runs of non-whitespace.\<close>

fun split_ws_from :: "string \<Rightarrow> string \<Rightarrow> string list" where
  "split_ws_from cur [] = (if cur = [] then [] else [cur])"
| "split_ws_from cur (x # xs) =
     (if isspace x then (if cur = [] then split_ws_from [] xs else cur # split_ws_from [] xs)
      else split_ws_from (cur @ [x]) xs)"

definition split_ws :: "string \<Rightarrow> string list" where
  "split_ws s = split_ws_from [] s"

text \<open>\<open>sep.join(ws)\<close>, \<open>s.strip(chars)\<close>, \<open>s.replace(c, "")\<close>, \<open>p in s\<close>.\<close>

fun join :: "string \<Rightarrow> string list \<Rightarrow> string" where
  "join sep [] = []"
| "join sep [w] = w"
| "join sep (w # ws) = w @ sep @ join sep ws"

definition strip_where :: "(char \<Rightarrow> bool) \<Rightarrow> string \<Rightarrow> string" where
  "strip_where p s = rev (dropWhile p (rev (dropWhile p s)))"

definition strip_chars :: "string \<Rightarrow> string \<Rightarrow> string" where
  "strip_chars cs s = strip_where (\<lambda>c. c \<in> set cs) s"

definition remove_char :: "char \<Rightarrow> string \<Rightarrow> string" where
  "remove_char c s = filter (\<lambda>x. x \<noteq> c) s"

fun str_in :: "string \<Rightarrow> string \<Rightarrow> bool" where
  "str_in p [] = (p = [])"
| "str_in p (x # xs) = (prefix p (x # xs) \<or> str_in p xs)"

text \<open>
  \<open>int(s)\<close> on a string. The interpreter first turns the whitespace from U+0080
  on into spaces and leaves every code point below 127 alone, then skips C
  whitespace (9 to 13 and the space) at both ends; so U+0085 and U+00A0 may
  surround the number and the controls 28 to 31 may not. Between them stands one
  optional sign and decimal digits, single underscores allowed between digits.
  Anything else raises \<open>ValueError\<close>. Below 256 the only decimal digits are the
  ASCII ones. The interpreter's limit on the number of digits is not modelled.
\<close>

definition int_space :: "char \<Rightarrow> bool" where
  "int_space c = (c \<in> set [CHR 0x09, CHR 0x0A, CHR 0x0B, CHR 0x0C, CHR 0x0D, CHR '' '',
                            CHR 0x85, CHR 0xA0])"

definition isdigit :: "char \<Rightarrow> bool" where
  "isdigit c = (c \<in> set ''0123456789'')"

definition digit_val :: "char \<Rightarrow> int" where
  "digit_val c = int (of_char c) - 48"

fun digits_ok :: "string \<Rightarrow> bool" where
  "digits_ok [] = False"
| "digits_ok [c] = isdigit c"
| "digits_ok (c # d # r) =
     (isdigit c \<and> (if d = CHR ''_'' then digits_ok r else digits_ok (d # r)))"

definition digits_val :: "string \<Rightarrow> int" where
  "digits_val ds = foldl (\<lambda>a c. 10 * a + digit_val c) 0 (remove_char CHR ''_'' ds)"

definition py_int :: "string \<Rightarrow> exn + int" where
  "py_int s =
     (let t = strip_where int_space s;
          neg = (t \<noteq> [] \<and> hd t = CHR ''-'');
          ds = (if t \<noteq> [] \<and> (hd t = CHR ''-'' \<or> hd t = CHR ''+'') then tl t else t)
      in if digits_ok ds then Inr (if neg then - digits_val ds else digits_val ds)
         else Inl ValueError)"

section \<open>The parsed document\<close>

text \<open>
  A \<open>BeautifulSoup\<close> tree: text nodes and tags with their attribute dictionary and
  children. The document itself is the root tag.
\<close>

datatype node =
    NavigableString string
  | Tag string "(string \<times> string) list" "node list"

text \<open>All nodes below a node, in document order.\<close>

fun descendants :: "node \<Rightarrow> node list" where
  "descendants (NavigableString s) = []"
| "descendants (Tag nm ats cs) = concat (map (\<lambda>c. c # descendants c) cs)"

text \<open>\<open>.text\<close> and \<open>get_text()\<close>: the text nodes below, concatenated.\<close>

fun get_text :: "node \<Rightarrow> string" where
  "get_text (NavigableString s) = s"
| "get_text (Tag nm ats cs) = concat (map get_text cs)"

text \<open>
  What a search asks of one attribute: a value, or \<open>True\<close> (the attribute is
  there). \<open>class\<close> is multi-valued: the wanted string matches one of the
  whitespace-separated classes, or all of them joined by single spaces.
\<close>

datatype attr_want = Is string | Present

definition attr_matches :: "(string \<times> string) list \<Rightarrow> string \<times> attr_want \<Rightarrow> bool" where
  "attr_matches ats w =
     (case map_of ats (fst w) of
        None \<Rightarrow> False
      | Some a \<Rightarrow>
          (case snd w of
             Present \<Rightarrow> True
           | Is v \<Rightarrow>
               if fst w = ''class''
               then List.member (split_ws a) v \<or> v = join '' '' (split_ws a)
               else a = v))"

definition tag_matches :: "string \<Rightarrow> (string \<times> attr_want) list \<Rightarrow> node \<Rightarrow> bool" where
  "tag_matches nm want t =
     (case t of
        NavigableString s \<Rightarrow> False
      | Tag n ats cs \<Rightarrow> n = nm \<and> list_all (attr_matches ats) want)"

definition find_all :: "string \<Rightarrow> (string \<times> attr_want) list \<Rightarrow> node \<Rightarrow> node list" where
  "find_all nm want doc = filter (tag_matches nm want) (descendants doc)"

definition find :: "string \<Rightarrow> (string \<times> attr_want) list \<Rightarrow> node \<Rightarrow> node option" where
  "find nm want doc = (case find_all nm want doc of [] \<Rightarrow> None | t # ts \<Rightarrow> Some t)"

text \<open>\<open>node.text\<close> where \<open>node\<close> may be \<open>None\<close>; \<open>tag.get(k)\<close>.\<close>

definition text_of :: "node option \<Rightarrow> exn + string" where
  "text_of r = (case r of None \<Rightarrow> Inl AttributeError | Some t \<Rightarrow> Inr (get_text t))"

fun tag_get :: "node \<Rightarrow> string \<Rightarrow> string option" where
  "tag_get (NavigableString s) k = None"
| "tag_get (Tag nm ats cs) k = map_of ats k"

section \<open>Fetching\<close>

text \<open>
  \<open>HouseDocumentFetcher.fetch_house_doc\<close> performs one network round trip. The
  network is a parameter: what the \<open>n\<close>-th request of a run answers for a URL,
  a parsed document or an exception.
\<close>

type_synonym network = "nat \<Rightarrow> string \<Rightarrow> exn + node"

definition fetch_house_doc :: "network \<Rightarrow> nat \<Rightarrow> string \<Rightarrow> exn + node" where
  "fetch_house_doc net n house_url = net n house_url"

section \<open>URLFetcher and HouseURLExtractor\<close>

definition base_url :: string where
  "base_url = ''https://www.redfin.com''"

text \<open>The pagination anchors of a page and their \<open>href\<close> values, in document order.\<close>

definition pagination_anchors :: "node \<Rightarrow> node list" where
  "pagination_anchors doc =
     find_all ''a'' [(''class'', Is ''clickable goToPage''), (''href'', Present)] doc"

definition page_hrefs :: "node \<Rightarrow> string list" where
  "page_hrefs doc =
     concat (map (\<lambda>a. case tag_get a ''href'' of None \<Rightarrow> [] | Some h \<Rightarrow> [h])
               (pagination_anchors doc))"

definition fetch_page_urls :: "network \<Rightarrow> string \<Rightarrow> exn + string list" where
  "fetch_page_urls net main_url =
     py_then (fetch_house_doc net 0 main_url)
       (\<lambda>mainurldoc. Inr (main_url # map (\<lambda>h. base_url @ h) (page_hrefs mainurldoc)))"

text \<open>
  The body of the inner loop of \<open>extract_house_urls\<close> for one listing card.
  \<open>div.a\<close> is the first anchor below the card, \<open>None\<close> when there is none, and
  \<open>.get\<close> on \<open>None\<close> raises; \<open>.get("href")\<close> may be \<open>None\<close>, which the test
  \<open>if href and ...\<close> lets through, and then the concatenation raises.
\<close>

definition listing_cards :: "node \<Rightarrow> node list" where
  "listing_cards doc = find_all ''div'' [(''class'', Is ''bottomV2'')] doc"

definition card_href :: "node \<Rightarrow> exn + string option" where
  "card_href dv =
     (case find ''a'' [] dv of
        None \<Rightarrow> Inl AttributeError
      | Some a \<Rightarrow> Inr (tag_get a ''href''))"

definition full_url_of :: "string option \<Rightarrow> exn + string" where
  "full_url_of href =
     (case href of
        None \<Rightarrow> Inl TypeError
      | Some h \<Rightarrow>
          Inr (''https://www.redfin.com/'' @ (if h \<noteq> [] \<and> prefix ''/'' h then drop 1 h else h)))"

definition card_url :: "node \<Rightarrow> exn + string" where
  "card_url dv = py_then (card_href dv) full_url_of"

fun card_urls :: "node list \<Rightarrow> string list \<Rightarrow> exn + string list" where
  "card_urls [] house_urls = Inr house_urls"
| "card_urls (dv # divs) house_urls =
     py_then (card_url dv) (\<lambda>full_url. card_urls divs (house_urls @ [full_url]))"

fun extract_pages :: "network \<Rightarrow> nat \<Rightarrow> string list \<Rightarrow> string list \<Rightarrow> exn + string list" where
  "extract_pages net n [] house_urls = Inr house_urls"
| "extract_pages net n (url # urls) house_urls =
     py_then (fetch_house_doc net n url)
       (\<lambda>doc. py_then (card_urls (listing_cards doc) house_urls)
          (\<lambda>house_urls'. extract_pages net (Suc n) urls house_urls'))"

definition extract_house_urls :: "network \<Rightarrow> string list \<Rightarrow> exn + string list" where
  "extract_house_urls net url_list = extract_pages net 0 url_list []"

section \<open>HouseDataExtractor.extract\_house\_details\<close>

definition SuperCenters :: "string list" where
  "SuperCenters = [''Costco'', ''Target'', ''Walmart'', ''Safeway'', ''Lucky'', ''FoodMaxx'',
                   ''Trader Joe'', ''Walgreens'']"

definition Major_Indian_Grocery :: "string list" where
  "Major_Indian_Grocery = [''New India'', ''Apna Bazaar'', ''India Cash And Carry'', ''Trinetra'',
                           ''Namaste'', ''Saudagar'', ''Bharat'', ''Nilgiris'']"

definition Major_Entertainment :: "string list" where
  "Major_Entertainment = [''AMC'', ''Cinemark'', ''Theater'']"

definition Boba :: "string list" where
  "Boba = [''Bubble Tea'', ''Boba'']"

definition Healthcare :: "string list" where
  "Healthcare = [''Hospital'', ''Clinic'', ''Kaiser Permanante'', ''United Health'', ''Health'']"

subsection \<open>The key-detail table\<close>

text \<open>
  The first loop of the function. Nothing guards the two subscripts: a key-detail
  div with fewer than two spans raises out of the function.
\<close>

fun key_details :: "node list \<Rightarrow> 'f pyval py_dict \<Rightarrow> exn + 'f pyval py_dict" where
  "key_details [] table_dict = Inr table_dict"
| "key_details (i # rest) table_dict =
     py_then (py_index (find_all ''span'' [] i) 0)
       (\<lambda>s0. py_then (py_index (find_all ''span'' [] i) 1)
          (\<lambda>s1. let x = split_sep (CHR 0x0A) (get_text s0);
                     y = split_ws (get_text s1);
                     z = zip x (map VStr y)
                 in key_details rest (dict_update table_dict (dict_of z))))"

subsection \<open>The guarded rules\<close>

definition price :: "node \<Rightarrow> 'f pyval" where
  "price doc =
     except_default
       (py_then (text_of (find ''div'' [(''class'', Is ''statsValue'')] doc))
          (\<lambda>t. py_then (py_index (split_sep CHR ''$'' t) 1) (\<lambda>s. Inr (VStr s))))
       NaN"

definition Address :: "node \<Rightarrow> 'f pyval" where
  "Address doc =
     except_default
       (py_then (text_of (find ''h1'' [(''data-rf-test-id'', Is ''abp-homeinfo-homeaddress'')] doc))
          (\<lambda>t. Inr (VStr t)))
       NaN"

definition beds :: "node \<Rightarrow> 'f pyval" where
  "beds doc =
     except_default
       (py_then (text_of (find ''div'' [(''data-rf-test-id'', Is ''abp-beds'')] doc))
          (\<lambda>t. py_then (py_index (split_sep CHR ''B'' t) 0)
             (\<lambda>bed_str. py_then (py_int bed_str) (\<lambda>n. Inr (VInt n)))))
       NaN"

definition bath :: "(string \<Rightarrow> exn + 'f) \<Rightarrow> node \<Rightarrow> 'f pyval" where
  "bath float_of doc =
     except_default
       (py_then (text_of (find ''div'' [(''data-rf-test-id'', Is ''abp-baths'')] doc))
          (\<lambda>t. py_then (py_index (split_sep CHR ''B'' t) 0)
             (\<lambda>str. py_then (float_of str) (\<lambda>x. Inr (VFloat x)))))
       NaN"

definition living_sqft :: "(string \<Rightarrow> exn + 'f) \<Rightarrow> node \<Rightarrow> 'f pyval" where
  "living_sqft float_of doc =
     except_default
       (py_then (text_of (find ''div'' [(''data-rf-test-id'', Is ''abp-sqFt'')] doc))
          (\<lambda>t. py_then (py_index (split_sep CHR ''S'' t) 0)
             (\<lambda>s. py_then (float_of (remove_char CHR '','' s)) (\<lambda>x. Inr (VFloat x)))))
       NaN"

definition d_score :: "node \<Rightarrow> 'f pyval" where
  "d_score doc =
     except_default
       (py_then (text_of (find ''tspan'' [(''class'', Is ''riskValue redOrange'')] doc))
          (\<lambda>t. py_then (py_int t) (\<lambda>n. Inr (VInt n))))
       NaN"

definition nbd_homes :: "node \<Rightarrow> 'f pyval" where
  "nbd_homes doc =
     except_default
       (py_then (text_of (find ''div''
                   [(''class'', Is ''MarketInsightsRegionCard--cardMetrics row'')] doc))
          (\<lambda>t. py_then (py_index (split_ws t) (- 3))
             (\<lambda>w. py_then (py_int (strip_chars ''#'' (strip_chars ''Sale-to-List'' w)))
                (\<lambda>n. Inr (VInt n)))))
       NaN"

definition wa_score :: "node \<Rightarrow> 'f pyval" where
  "wa_score doc =
     except_default
       (py_then (py_index (find_all ''div'' [(''class'', Is ''score inline-block not-last'')] doc) 0)
          (\<lambda>t. py_then (py_index (split_sep CHR '' '' (get_text t)) 0)
             (\<lambda>w. py_then (py_int w) (\<lambda>n. Inr (VInt n)))))
       NaN"

definition trans_score :: "node \<Rightarrow> 'f pyval" where
  "trans_score doc =
     except_default
       (py_then (py_index (find_all ''span'' [(''class'', Is ''value fair'')] doc) 0)
          (\<lambda>t. py_then (py_int (get_text t)) (\<lambda>n. Inr (VInt n))))
       NaN"

subsection \<open>The point-of-interest counts\<close>

text \<open>
  The loop over the \<open>PointOfInterestWidget\<close> divs stands outside every \<open>try\<close>.
  Its five variables are bound only by an iteration of the loop (\<open>None\<close> below
  is "not bound yet"), and a subscript or an \<open>int()\<close> that fails raises out of
  the function.
\<close>

record poi_counts =
  groceries :: int
  services :: int
  emergency :: int
  shopping :: int
  food_drink :: int

definition tag_int :: "node list \<Rightarrow> int \<Rightarrow> exn + int" where
  "tag_int tags i = py_then (py_index tags i) (\<lambda>t. py_int (get_text t))"

fun poi_loop :: "node list \<Rightarrow> poi_counts option \<Rightarrow> exn + poi_counts option" where
  "poi_loop [] bound = Inr bound"
| "poi_loop (dv # divs) bound =
     (let tags = find_all ''div'' [(''class'', Is ''Tag__text'')] dv in
      py_then (tag_int tags 1) (\<lambda>g.
      py_then (tag_int tags (- 1)) (\<lambda>s.
      py_then (tag_int tags (- 2)) (\<lambda>e.
      py_then (tag_int tags 4) (\<lambda>sh.
      py_then (tag_int tags 2) (\<lambda>fd.
        poi_loop divs
          (Some \<lparr>groceries = g, services = s, emergency = e, shopping = sh,
                 food_drink = fd\<rparr>)))))))"

subsection \<open>Nearby items, competitive score, activity counts, schools\<close>

definition Nearby_Items :: "node \<Rightarrow> 'f pyval" where
  "Nearby_Items doc =
     except_default
       (py_then (text_of (find ''div'' [(''class'', Is ''PointOfInterestWidget'')] doc))
          (\<lambda>t. Inr (VStr t)))
       NaN"

definition Competitive_Score :: "node \<Rightarrow> 'f pyval" where
  "Competitive_Score doc =
     except_default
       (py_then (text_of (find ''div'' [(''class'', Is ''score most'')] doc))
          (\<lambda>t. Inr (VStr t)))
       NaN"

definition activity_lis :: "node \<Rightarrow> string list" where
  "activity_lis doc =
     map get_text
       (find_all ''span''
          [(''class'', Is ''count''), (''data-rf-test-name'', Is ''activity-count-label'')] doc)"

definition activity_count :: "node \<Rightarrow> int \<Rightarrow> 'f pyval" where
  "activity_count doc i =
     except_default (py_then (py_index (activity_lis doc) i) (\<lambda>t. Inr (VStr t))) NaN"

definition name_lis :: "node \<Rightarrow> string list" where
  "name_lis doc =
     map get_text
       (find_all ''div'' [(''class'', Is ''school-name font-size-base font-weight-bold'')] doc)"

definition rating_lis :: "node \<Rightarrow> string list" where
  "rating_lis doc =
     map get_text
       (find_all ''span'' [(''class'', Is ''rating-num font-size-base font-weight-bold'')] doc)"

text \<open>\<open>for x, y in zip(name_lis, rating_lis): school_dict[x] = y\<close>\<close>

definition school_dict :: "node \<Rightarrow> string py_dict" where
  "school_dict doc =
     foldl (\<lambda>d (x, y). AList.update x y d) [] (zip (name_lis doc) (rating_lis doc))"

subsection \<open>The amenity flags\<close>

text \<open>
  \<open>p in v\<close>: a substring test on a string, a membership test on a list or a
  dictionary's keys, \<open>TypeError\<close> on a number (and so on \<open>np.nan\<close>).
\<close>

definition py_contains :: "'f pyval \<Rightarrow> string \<Rightarrow> exn + bool" where
  "py_contains v p =
     (case v of
        VStr s \<Rightarrow> Inr (str_in p s)
      | VList xs \<Rightarrow> Inr (list_ex (\<lambda>x. case x of VStr q \<Rightarrow> q = p | _ \<Rightarrow> False) xs)
      | VDict kvs \<Rightarrow> Inr (List.member (map fst kvs) p)
      | _ \<Rightarrow> Inl TypeError)"

text \<open>\<open>any(k in v for k in ks)\<close>: stops at the first hit, raises at the first raise.\<close>

fun any_in :: "'f pyval \<Rightarrow> string list \<Rightarrow> exn + bool" where
  "any_in v [] = Inr False"
| "any_in v (k # ks) = py_then (py_contains v k) (\<lambda>b. if b then Inr True else any_in v ks)"

definition flag_any :: "'f pyval \<Rightarrow> string list \<Rightarrow> 'f pyval" where
  "flag_any v ks = except_default (py_then (any_in v ks) (\<lambda>b. Inr (VInt (if b then 1 else 0)))) (VInt 0)"

definition flag_in :: "'f pyval \<Rightarrow> string \<Rightarrow> 'f pyval" where
  "flag_in v k = except_default (py_then (py_contains v k) (\<lambda>b. Inr (VInt (if b then 1 else 0)))) (VInt 0)"

subsection \<open>The record\<close>

text \<open>
  The dictionary \<open>l\<close>, in the order of the source. It can be built only when the
  five point-of-interest variables are bound.
\<close>

definition named_fields ::
  "(string \<Rightarrow> exn + 'f) \<Rightarrow> node \<Rightarrow> poi_counts \<Rightarrow> (string \<times> 'f pyval) list" where
  "named_fields float_of doc p =
     [(''List_price'', price doc),
      (''Address'', Address doc),
      (''Beds'', beds doc),
      (''Baths'', bath float_of doc),
      (''Living_sqft'', living_sqft float_of doc),
      (''Drought_Score'', d_score doc),
      (''Walk_score'', wa_score doc),
      (''Neighbourhood_Homes'', nbd_homes doc),
      (''Transit_score'', trans_score doc),
      (''Groceries_stores'', VInt (groceries p)),
      (''Services'', VInt (services p)),
      (''Emergency'', VInt (emergency p)),
      (''Shopping'', VInt (shopping p)),
      (''Food_and_Drink'', VInt (food_drink p)),
      (''Schools'', VList [VDict (map (\<lambda>(x, y). (x, VStr y)) (school_dict doc))]),
      (''Competitive_Score'', Competitive_Score doc),
      (''page_view_count'', activity_count doc 0),
      (''page_fav_count_30'', activity_count doc 1),
      (''page_fav_all_time_count'', activity_count doc 2),
      (''has_supercenter'', flag_any (Nearby_Items doc) SuperCenters),
      (''has_major_indian_grocery'', flag_any (Nearby_Items doc) Major_Indian_Grocery),
      (''has_major_entertainment'', flag_any (Nearby_Items doc) Major_Entertainment),
      (''has_indian_restaurant'', flag_in (Nearby_Items doc) ''Indian Restaurant''),
      (''has_chinese_restaurant'', flag_in (Nearby_Items doc) ''Chinese Restaurant''),
      (''has_mexican_restaurant'', flag_in (Nearby_Items doc) ''Mexican Restaurant''),
      (''has_boba'', flag_any (Nearby_Items doc) Boba),
      (''has_starbucks'', flag_in (Nearby_Items doc) ''Starbucks''),
      (''has_healthcare_support'', flag_any (Nearby_Items doc) Healthcare),
      (''has_mall'', flag_in (Nearby_Items doc) ''Mall'')]"

definition field_names :: "string list" where
  "field_names =
     [''List_price'', ''Address'', ''Beds'', ''Baths'', ''Living_sqft'', ''Drought_Score'',
      ''Walk_score'', ''Neighbourhood_Homes'', ''Transit_score'', ''Groceries_stores'',
      ''Services'', ''Emergency'', ''Shopping'', ''Food_and_Drink'', ''Schools'',
      ''Competitive_Score'', ''page_view_count'', ''page_fav_count_30'',
      ''page_fav_all_time_count'', ''has_supercenter'', ''has_major_indian_grocery'',
      ''has_major_entertainment'', ''has_indian_restaurant'', ''has_chinese_restaurant'',
      ''has_mexican_restaurant'', ''has_boba'', ''has_starbucks'', ''has_healthcare_support'',
      ''has_mall'']"

text \<open>
  The whole function. Between the key-detail loop and the point-of-interest loop,
  and after it, every statement is guarded or cannot raise, so the function raises
  exactly where one of the two loops does, or where \<open>l\<close> reads an unbound variable.
\<close>

definition key_detail_table :: "node \<Rightarrow> exn + 'f pyval py_dict" where
  "key_detail_table doc =
     key_details
       (find_all ''div'' [(''class'', Is ''keyDetail font-weight-roman font-size-base'')] doc) []"

definition poi_bound :: "node \<Rightarrow> exn + poi_counts option" where
  "poi_bound doc = poi_loop (find_all ''div'' [(''class'', Is ''PointOfInterestWidget'')] doc) None"

definition extract_house_details ::
  "(string \<Rightarrow> exn + 'f) \<Rightarrow> node \<Rightarrow> exn + 'f pyval py_dict" where
  "extract_house_details float_of doc =
     py_then (key_detail_table doc)
       (\<lambda>table_dict.
          py_then (poi_bound doc)
            (\<lambda>bound.
               case bound of
                 None \<Rightarrow> Inl UnboundLocalError
               | Some p \<Rightarrow> Inr (dict_update table_dict (named_fields float_of doc p))))"

section \<open>HouseDataExtractor.scrape\_and\_save\_property\_details\<close>

text \<open>
  The run's state: the accumulated table \<open>details_df\<close> (one dictionary per row),
  the files on disk (a file's content is the table it was last written from), and
  what the run has done so far: the number of \<open>to_csv\<close> calls, the URLs requested,
  the seconds slept.
\<close>

type_synonym 'f table = "'f pyval py_dict list"

record 'f run_state =
  details_df :: "'f table"
  files :: "string \<rightharpoonup> 'f table"
  writes :: nat
  requests :: "string list"
  slept :: nat

text \<open>
  \<open>details_df.to_csv(filename, index=False)\<close>. The disk is a parameter: whether
  the \<open>n\<close>-th write of the run succeeds. A write that succeeds replaces the file
  by the whole table; one that fails raises and is taken to leave the file alone.
\<close>

definition to_csv :: "(nat \<Rightarrow> bool) \<Rightarrow> string \<Rightarrow> 'f run_state \<Rightarrow> exn option \<times> 'f run_state" where
  "to_csv disk filename st =
     (if disk (writes st)
      then (None, st\<lparr>files := (files st)(filename \<mapsto> details_df st), writes := Suc (writes st)\<rparr>)
      else (Some OSError, st\<lparr>writes := Suc (writes st)\<rparr>))"

text \<open>
  One iteration of the loop, \<open>i\<close> the position of \<open>url\<close> in \<open>url_list\<close>. Whatever
  the body raises is swallowed by \<open>except Exception: pass\<close>; the state keeps what
  the body had done until then. \<open>i % batch_size\<close> raises when \<open>batch_size\<close> is 0.
\<close>

definition scrape_step ::
  "(string \<Rightarrow> exn + 'f) \<Rightarrow> network \<Rightarrow> (nat \<Rightarrow> bool) \<Rightarrow> string \<Rightarrow> int \<Rightarrow>
   'f run_state \<Rightarrow> nat \<times> string \<Rightarrow> 'f run_state" where
  "scrape_step float_of net disk filename batch_size st iu =
     (let i = fst iu; url = snd iu;
          st1 = st\<lparr>requests := requests st @ [url]\<rparr>
      in case fetch_house_doc net i url of
           Inl e \<Rightarrow> st1
         | Inr house_doc \<Rightarrow>
             (case extract_house_details float_of house_doc of
                Inl e \<Rightarrow> st1
              | Inr house_dict \<Rightarrow>
                  (let st2 = st1\<lparr>details_df := details_df st1 @ [house_dict]\<rparr>
                   in if batch_size = 0 then st2
                      else if int i mod batch_size = 0
                      then (case to_csv disk filename st2 of
                              (Some e, st3) \<Rightarrow> st3
                            | (None, st3) \<Rightarrow> st3\<lparr>slept := slept st3 + 3\<rparr>)
                      else st2\<lparr>slept := slept st2 + 3\<rparr>)))"

definition scrape_loop ::
  "(string \<Rightarrow> exn + 'f) \<Rightarrow> network \<Rightarrow> (nat \<Rightarrow> bool) \<Rightarrow> string \<Rightarrow> int \<Rightarrow>
   (nat \<times> string) list \<Rightarrow> 'f run_state \<Rightarrow> 'f run_state" where
  "scrape_loop float_of net disk filename batch_size ius st =
     foldl (scrape_step float_of net disk filename batch_size) st ius"

text \<open>The state a run starts in, on a disk holding \<open>fs\<close>.\<close>

definition start :: "(string \<rightharpoonup> 'f table) \<Rightarrow> 'f run_state" where
  "start fs = \<lparr>details_df = [], files = fs, writes = 0, requests = [], slept = 0\<rparr>"

text \<open>
  The run after its first \<open>n\<close> listings, before anything else happens; and the
  whole function: the loop over all of \<open>enumerate(url_list)\<close>, then the last
  \<open>to_csv\<close>, which no \<open>try\<close> guards.
\<close>

definition after_listings ::
  "(string \<Rightarrow> exn + 'f) \<Rightarrow> network \<Rightarrow> (nat \<Rightarrow> bool) \<Rightarrow> (string \<rightharpoonup> 'f table) \<Rightarrow>
   string list \<Rightarrow> string \<Rightarrow> int \<Rightarrow> nat \<Rightarrow> 'f run_state" where
  "after_listings float_of net disk fs url_list filename batch_size n =
     scrape_loop float_of net disk filename batch_size (take n (enumerate 0 url_list)) (start fs)"

definition scrape_and_save_property_details ::
  "(string \<Rightarrow> exn + 'f) \<Rightarrow> network \<Rightarrow> (nat \<Rightarrow> bool) \<Rightarrow> (string \<rightharpoonup> 'f table) \<Rightarrow>
   string list \<Rightarrow> string \<Rightarrow> int \<Rightarrow> (exn + 'f table) \<times> 'f run_state" where
  "scrape_and_save_property_details float_of net disk fs url_list filename batch_size =
     (let st = scrape_loop float_of net disk filename batch_size (enumerate 0 url_list) (start fs)
      in case to_csv disk filename st of
           (Some e, st') \<Rightarrow> (Inl e, st')
         | (None, st') \<Rightarrow> (Inr (details_df st'), st'))"

text \<open>
  What one listing contributes to the table: its record, or nothing when the fetch
  or the extraction raises.
\<close>

definition appended :: "(string \<Rightarrow> exn + 'f) \<Rightarrow> network \<Rightarrow> nat \<times> string \<Rightarrow> 'f table" where
  "appended float_of net iu =
     (case fetch_house_doc net (fst iu) (snd iu) of
        Inl e \<Rightarrow> []
      | Inr d \<Rightarrow> (case extract_house_details float_of d of Inl e \<Rightarrow> [] | Inr house_dict \<Rightarrow> [house_dict]))"

section \<open>Spec-side readings and concrete inputs\<close>

text \<open>
  Relative-href resolution as the specification words it: strip one leading
  slash if there is one, then prepend the origin and one slash.
\<close>

definition resolved :: "string \<Rightarrow> string \<Rightarrow> string" where
  "resolved origin href =
     origin @ ''/'' @ (case href of [] \<Rightarrow> [] | c # r \<Rightarrow> if c = CHR ''/'' then r else c # r)"

text \<open>
  A search page with three pagination anchors at different depths (one beside the
  paging block, one inside it, one deeper inside a list item), an anchor of the
  right class without href, an anchor of another class, and two listing cards, one
  at the top with a relative href and one nested in a wrapper whose href has no
  leading slash; a page with neither pagination anchors nor cards; and a network
  that serves them.
\<close>

definition search_page :: node where
  "search_page =
     Tag ''[document]'' []
       [Tag ''div'' [(''class'', ''PagingControls'')]
          [Tag ''a'' [(''class'', ''clickable goToPage''), (''href'', ''/city/1/page-2'')]
             [NavigableString ''2''],
           Tag ''ul'' []
             [Tag ''li'' []
                [Tag ''a'' [(''href'', ''/city/1/page-3''), (''class'', ''clickable   goToPage'')]
                   [NavigableString ''3'']],
              Tag ''li'' [] [Tag ''a'' [(''class'', ''clickable goToPage'')] [NavigableString ''x'']]]],
        Tag ''div'' [(''class'', ''bottomV2'')]
          [Tag ''a'' [(''href'', ''/property/123'')] [NavigableString ''home'']],
        Tag ''a'' [(''class'', ''clickable''), (''href'', ''/help'')] [NavigableString ''help''],
        Tag ''div'' [(''class'', ''HomeViews'')]
          [Tag ''div'' [(''class'', ''HomeCard bottomV2'')]
             [Tag ''span'' [] [Tag ''a'' [(''href'', ''CA/home/9'')] []]]],
        Tag ''a'' [(''class'', ''clickable goToPage''), (''href'', ''/city/1/page-4'')]
          [NavigableString ''4'']]"

definition plain_page :: node where
  "plain_page =
     Tag ''[document]'' []
       [Tag ''div'' []
          [Tag ''a'' [(''class'', ''goToPage''), (''href'', ''/about'')] [NavigableString ''about'']]]"

definition small_net :: network where
  "small_net n url =
     (if url = ''https://www.redfin.com/city/1'' then Inr search_page
      else if url = ''https://www.redfin.com/city/2'' then Inr plain_page
      else Inl URLError)"

text \<open>
  Listing documents. \<open>listing_doc\<close> has a key-detail pair whose key is the name of
  a named field, a price, a beds node, a point-of-interest widget with six counts,
  three school names and two ratings. \<open>bare_doc\<close> has nothing; \<open>short_poi_doc\<close>
  has a widget with three counts only. None of them has a baths or living-area
  node, so \<open>float()\<close> is never called on them: \<open>float_unavailable\<close> stands in.
\<close>

definition float_unavailable :: "string \<Rightarrow> exn + unit" where
  "float_unavailable s = Inl ValueError"

definition listing_doc :: node where
  "listing_doc =
     Tag ''[document]'' []
       [Tag ''div'' [(''class'', ''keyDetail font-weight-roman font-size-base'')]
          [Tag ''span'' [] [NavigableString ''Beds''], Tag ''span'' [] [NavigableString ''7'']],
        Tag ''div'' [(''class'', ''statsValue'')] [NavigableString ''$1,234,567 Est.''],
        Tag ''div'' [(''data-rf-test-id'', ''abp-beds'')] [NavigableString ''3Beds''],
        Tag ''div'' [(''class'', ''PointOfInterestWidget'')]
          [Tag ''div'' [(''class'', ''Tag__text'')] [NavigableString ''9''],
           Tag ''div'' [(''class'', ''Tag__text'')] [NavigableString ''4''],
           Tag ''div'' [(''class'', ''Tag__text'')] [NavigableString ''12''],
           Tag ''div'' [(''class'', ''Tag__text'')] [NavigableString ''1''],
           Tag ''div'' [(''class'', ''Tag__text'')] [NavigableString ''5''],
           Tag ''div'' [(''class'', ''Tag__text'')] [NavigableString ''2''],
           NavigableString '' Costco''],
        Tag ''div'' [(''class'', ''school-name font-size-base font-weight-bold'')]
          [NavigableString ''Oak''],
        Tag ''div'' [(''class'', ''school-name font-size-base font-weight-bold'')]
          [NavigableString ''Elm''],
        Tag ''div'' [(''class'', ''school-name font-size-base font-weight-bold'')]
          [NavigableString ''Ash''],
        Tag ''span'' [(''class'', ''rating-num font-size-base font-weight-bold'')]
          [NavigableString ''8''],
        Tag ''span'' [(''class'', ''rating-num font-size-base font-weight-bold'')]
          [NavigableString ''6'']]"

definition listing_record :: "unit pyval py_dict" where
  "listing_record =
     [(''Beds'', VInt 3), (''List_price'', VStr ''1,234,567 Est.''),
      (''Address'', NaN), (''Baths'', NaN), (''Living_sqft'', NaN),
      (''Drought_Score'', NaN), (''Walk_score'', NaN),
      (''Neighbourhood_Homes'', NaN), (''Transit_score'', NaN),
      (''Groceries_stores'', VInt 4), (''Services'', VInt 2),
      (''Emergency'', VInt 5), (''Shopping'', VInt 5),
      (''Food_and_Drink'', VInt 12),
      (''Schools'', VList [VDict [(''Oak'', VStr ''8''), (''Elm'', VStr ''6'')]]),
      (''Competitive_Score'', NaN), (''page_view_count'', NaN),
      (''page_fav_count_30'', NaN), (''page_fav_all_time_count'', NaN),
      (''has_supercenter'', VInt 1), (''has_major_indian_grocery'', VInt 0),
      (''has_major_entertainment'', VInt 0), (''has_indian_restaurant'', VInt 0),
      (''has_chinese_restaurant'', VInt 0), (''has_mexican_restaurant'', VInt 0),
      (''has_boba'', VInt 0), (''has_starbucks'', VInt 0),
      (''has_healthcare_support'', VInt 0), (''has_mall'', VInt 0)]"

definition bare_doc :: node where
  "bare_doc = Tag ''[document]'' [] [Tag ''h1'' [] [NavigableString ''Listing'']]"

definition short_poi_doc :: node where
  "short_poi_doc =
     Tag ''[document]'' []
       [Tag ''div'' [(''class'', ''PointOfInterestWidget'')]
          [Tag ''div'' [(''class'', ''Tag__text'')] [NavigableString ''9''],
           Tag ''div'' [(''class'', ''Tag__text'')] [NavigableString ''4''],
           Tag ''div'' [(''class'', ''Tag__text'')] [NavigableString ''12'']]]"

text \<open>
  Networks for the runs below: one where every listing URL answers \<open>listing_doc\<close>,
  and one where \<open>/down\<close> cannot be fetched and \<open>/bare\<close> answers \<open>bare_doc\<close>.
\<close>

definition listing_net :: network where
  "listing_net n url = Inr listing_doc"

definition patchy_net :: network where
  "patchy_net n url =
     (if url = ''https://www.redfin.com/down'' then Inl URLError
      else if url = ''https://www.redfin.com/bare'' then Inr bare_doc
      else Inr listing_doc)"

text \<open>Disks: one whose first write fails and the later ones succeed, one that never fails.\<close>

definition first_write_fails :: "nat \<Rightarrow> bool" where
  "first_write_fails n = (n \<noteq> 0)"

definition disk_ok :: "nat \<Rightarrow> bool" where
  "disk_ok n = True"

definition no_files :: "string \<rightharpoonup> unit table" where
  "no_files = Map.empty"

definition only_first_write_ok :: "nat \<Rightarrow> bool" where
  "only_first_write_ok n = (n = 0)"

text \<open>URL lists for the runs below.\<close>

definition crawl_urls :: "string list" where
  "crawl_urls = [''https://www.redfin.com/home/1'', ''https://www.redfin.com/down'',
                 ''https://www.redfin.com/bare'', ''https://www.redfin.com/home/2'']"

definition home_urls :: "string list" where
  "home_urls = [''https://www.redfin.com/home/1'', ''https://www.redfin.com/home/2'',
                ''https://www.redfin.com/home/3'']"

definition two_urls :: "string list" where
  "two_urls = [''https://www.redfin.com/home/1'', ''https://www.redfin.com/home/2'']"

section \<open>Basic facts\<close>

lemma py_then_Inr [simp]: "py_then (Inr v) f = f v"
  by (simp add: py_then_def)

lemma py_then_Inl [simp]: "py_then (Inl e) f = Inl e"
  by (simp add: py_then_def)

lemma py_then_eq_Inr:
  "py_then r f = Inr y \<longleftrightarrow> (\<exists>v. r = Inr v \<and> f v = Inr y)"
  by (cases r) simp_all

lemma except_default_Inr [simp]: "except_default (Inr v) d = v"
  by (simp add: except_default_def)

lemma except_default_Inl [simp]: "except_default (Inl e) d = d"
  by (simp add: except_default_def)

lemma find_all_sound: "t \<in> set (find_all nm want doc) \<Longrightarrow> tag_matches nm want t"
  by (simp add: find_all_def)

lemma present_attr_is_there:
  assumes "tag_matches nm want t" and "(k, Present) \<in> set want"
  shows "tag_get t k \<noteq> None"
proof (cases t)
  case (NavigableString s)
  with assms(1) show ?thesis by (simp add: tag_matches_def)
next
  case (Tag n ats cs)
  with assms(1) have "list_all (attr_matches ats) want"
    by (simp add: tag_matches_def)
  with assms(2) have "attr_matches ats (k, Present)"
    by (simp add: list_all_iff)
  then have "map_of ats k \<noteq> None"
    by (auto simp: attr_matches_def split: option.splits)
  with Tag show ?thesis by simp
qed

lemma collect_all_present:
  "(\<And>a. a \<in> set xs \<Longrightarrow> f a \<noteq> None) \<Longrightarrow>
   map Some (concat (map (\<lambda>a. case f a of None \<Rightarrow> [] | Some h \<Rightarrow> [h]) xs)) = map f xs"
  by (induction xs) (auto split: option.splits)

lemma page_hrefs_complete:
  "map Some (page_hrefs doc) = map (\<lambda>a. tag_get a ''href'') (pagination_anchors doc)"
  unfolding page_hrefs_def
proof (rule collect_all_present)
  fix a assume "a \<in> set (pagination_anchors doc)"
  then have "tag_matches ''a'' [(''class'', Is ''clickable goToPage''), (''href'', Present)] a"
    unfolding pagination_anchors_def by (rule find_all_sound)
  then show "tag_get a ''href'' \<noteq> None"
    by (rule present_attr_is_there) simp
qed

section \<open>Properties of fetch\_page\_urls\<close>

lemma pagination_anchors_in_document_order:
  "pagination_anchors doc
     = filter (tag_matches ''a'' [(''class'', Is ''clickable goToPage''), (''href'', Present)])
         (descendants doc)"
  by (simp add: pagination_anchors_def find_all_def)

text \<open>
  Claim C7. When the seed page is fetched, \<open>fetch_page_urls\<close> returns the seed URL
  followed by the origin-prefixed href of every pagination anchor of the page: the
  anchors are the tags named \<open>a\<close> with class \<open>clickable goToPage\<close> and an href
  among all the nodes below the document root, at any depth, taken in document
  order, and each contributes exactly its own href. When no node of the document
  is such an anchor the result is the one-element list of the seed URL, a normal
  return.
\<close>

theorem fetch_page_urls_seed_then_pages:
  assumes "net 0 main_url = Inr doc"
  shows "(\<exists>hrefs.
            map Some hrefs
              = map (\<lambda>a. tag_get a ''href'')
                  (filter (tag_matches ''a'' [(''class'', Is ''clickable goToPage''),
                                             (''href'', Present)])
                     (descendants doc))
          \<and> fetch_page_urls net main_url = Inr (main_url # map (\<lambda>h. base_url @ h) hrefs))
       \<and> (filter (tag_matches ''a'' [(''class'', Is ''clickable goToPage''), (''href'', Present)])
             (descendants doc) = []
            \<longrightarrow> fetch_page_urls net main_url = Inr [main_url])"
proof -
  let ?anchors = "filter (tag_matches ''a'' [(''class'', Is ''clickable goToPage''),
                                           (''href'', Present)])
                    (descendants doc)"
  have run: "fetch_page_urls net main_url
               = Inr (main_url # map (\<lambda>h. base_url @ h) (page_hrefs doc))"
    using assms by (simp add: fetch_page_urls_def fetch_house_doc_def)
  have each: "map Some (page_hrefs doc) = map (\<lambda>a. tag_get a ''href'') ?anchors"
    using page_hrefs_complete [of doc]
    by (simp only: pagination_anchors_in_document_order)
  have none: "fetch_page_urls net main_url = Inr [main_url]" if "?anchors = []"
  proof -
    from that each have "page_hrefs doc = []" by simp
    with run show ?thesis by simp
  qed
  from run each none show ?thesis by blast
qed

lemma search_page_anchors:
  "map (\<lambda>a. tag_get a ''href'')
     (filter (tag_matches ''a'' [(''class'', Is ''clickable goToPage''), (''href'', Present)])
        (descendants search_page))
     = map Some [''/city/1/page-2'', ''/city/1/page-3'', ''/city/1/page-4'']"
  by code_simp

lemma plain_page_anchors:
  "filter (tag_matches ''a'' [(''class'', Is ''clickable goToPage''), (''href'', Present)])
     (descendants plain_page) = []"
  by code_simp

theorem fetch_page_urls_seed_then_pages_witness:
  "small_net 0 ''https://www.redfin.com/city/1'' = Inr search_page
   \<and> fetch_page_urls small_net ''https://www.redfin.com/city/1''
       = Inr [''https://www.redfin.com/city/1'',
              ''https://www.redfin.com/city/1/page-2'',
              ''https://www.redfin.com/city/1/page-3'',
              ''https://www.redfin.com/city/1/page-4'']
   \<and> small_net 0 ''https://www.redfin.com/city/2'' = Inr plain_page
   \<and> filter (tag_matches ''a'' [(''class'', Is ''clickable goToPage''), (''href'', Present)])
         (descendants plain_page) = []
   \<and> fetch_page_urls small_net ''https://www.redfin.com/city/2''
       = Inr [''https://www.redfin.com/city/2'']"
proof -
  have a: "small_net 0 ''https://www.redfin.com/city/1'' = Inr search_page"
    by (simp add: small_net_def)
  have b: "small_net 0 ''https://www.redfin.com/city/2'' = Inr plain_page"
    by (simp add: small_net_def)
  from fetch_page_urls_seed_then_pages
         [of small_net "''https://www.redfin.com/city/1''" search_page, OF a]
  obtain hrefs where each: "map Some hrefs
        = map (\<lambda>a. tag_get a ''href'')
            (filter (tag_matches ''a'' [(''class'', Is ''clickable goToPage''),
                                       (''href'', Present)])
               (descendants search_page))"
    and run: "fetch_page_urls small_net ''https://www.redfin.com/city/1''
                = Inr (''https://www.redfin.com/city/1'' # map (\<lambda>h. base_url @ h) hrefs)"
    by blast
  from each have "map Some hrefs = map Some [''/city/1/page-2'', ''/city/1/page-3'', ''/city/1/page-4'']"
    by (simp only: search_page_anchors)
  then have "hrefs = [''/city/1/page-2'', ''/city/1/page-3'', ''/city/1/page-4'']"
    by (rule map_injective) simp
  with run have c: "fetch_page_urls small_net ''https://www.redfin.com/city/1''
       = Inr [''https://www.redfin.com/city/1'',
              ''https://www.redfin.com/city/1/page-2'',
              ''https://www.redfin.com/city/1/page-3'',
              ''https://www.redfin.com/city/1/page-4'']"
    by (simp add: base_url_def)
  from fetch_page_urls_seed_then_pages
         [of small_net "''https://www.redfin.com/city/2''" plain_page, OF b] plain_page_anchors
  have d: "fetch_page_urls small_net ''https://www.redfin.com/city/2''
             = Inr [''https://www.redfin.com/city/2'']"
    by blast
  from a b c d plain_page_anchors show ?thesis by blast
qed

section \<open>Properties of extract\_house\_urls\<close>

lemma full_url_of_resolved: "full_url_of (Some h) = Inr (resolved base_url h)"
  by (cases h) (simp_all add: full_url_of_def resolved_def base_url_def)

lemma card_urls_resolved:
  "map card_href divs = map (\<lambda>h. Inr (Some h)) hrefs \<Longrightarrow>
   card_urls divs acc = Inr (acc @ map (resolved base_url) hrefs)"
proof (induction divs arbitrary: hrefs acc)
  case Nil
  then show ?case by simp
next
  case (Cons dv divs)
  then obtain h hs where hrefs: "hrefs = h # hs" by (cases hrefs) auto
  with Cons.prems have hd: "card_href dv = Inr (Some h)"
    and tl: "map card_href divs = map (\<lambda>h. Inr (Some h)) hs" by simp_all
  from hd have "card_url dv = Inr (resolved base_url h)"
    by (simp add: card_url_def full_url_of_resolved)
  with Cons.IH [OF tl] hrefs show ?case by simp
qed

lemma extract_pages_resolved:
  "list_all2 (\<lambda>iu doc. net (fst iu) (snd iu) = Inr doc) (enumerate n urls) docs \<Longrightarrow>
   list_all2 (\<lambda>doc hrefs. map card_href (listing_cards doc) = map (\<lambda>h. Inr (Some h)) hrefs)
     docs hrefss \<Longrightarrow>
   extract_pages net n urls acc = Inr (acc @ map (resolved base_url) (concat hrefss))"
proof (induction urls arbitrary: n docs hrefss acc)
  case Nil
  then show ?case by simp
next
  case (Cons url urls)
  from Cons.prems(1) obtain doc ds where docs: "docs = doc # ds"
    and fetched: "net n url = Inr doc"
    and rest: "list_all2 (\<lambda>iu doc. net (fst iu) (snd iu) = Inr doc) (enumerate (Suc n) urls) ds"
    by (auto simp: list_all2_Cons1)
  from Cons.prems(2) docs obtain hs hss where hrefss: "hrefss = hs # hss"
    and cards: "map card_href (listing_cards doc) = map (\<lambda>h. Inr (Some h)) hs"
    and rest2: "list_all2 (\<lambda>doc hrefs. map card_href (listing_cards doc)
                              = map (\<lambda>h. Inr (Some h)) hrefs) ds hss"
    by (auto simp: list_all2_Cons1)
  from Cons.IH [OF rest rest2] fetched card_urls_resolved [OF cards] hrefss
  show ?case by (simp add: fetch_house_doc_def)
qed

lemma listing_cards_in_document_order:
  "listing_cards doc
     = filter (tag_matches ''div'' [(''class'', Is ''bottomV2'')]) (descendants doc)"
  by (simp add: listing_cards_def find_all_def)

text \<open>
  Claim C6. When every page is fetched and every listing card's first anchor has
  an href (the cards of a page being the divs of class \<open>bottomV2\<close> among all the
  nodes below its root, in document order), \<open>extract_house_urls\<close> returns, in page-then-position order, each href
  with one leading slash stripped if present and the origin plus one slash
  prepended. So \<open>/property/123\<close> becomes \<open>https://www.redfin.com/property/123\<close>,
  and an href without a leading slash follows the origin after exactly one slash.
\<close>

theorem extract_house_urls_resolves:
  assumes "list_all2 (\<lambda>iu doc. net (fst iu) (snd iu) = Inr doc) (enumerate 0 url_list) docs"
    and "list_all2
           (\<lambda>doc hrefs.
              map card_href (filter (tag_matches ''div'' [(''class'', Is ''bottomV2'')])
                               (descendants doc))
                = map (\<lambda>h. Inr (Some h)) hrefs)
           docs hrefss"
  shows "extract_house_urls net url_list = Inr (map (resolved base_url) (concat hrefss))
       \<and> resolved ''https://www.redfin.com'' ''/property/123'' = ''https://www.redfin.com/property/123''
       \<and> (\<forall>href. \<not> prefix ''/'' href \<longrightarrow> resolved base_url href = base_url @ ''/'' @ href)
       \<and> (\<forall>href. resolved base_url (''/'' @ href) = base_url @ ''/'' @ href)"
proof -
  have cards: "list_all2 (\<lambda>doc hrefs. map card_href (listing_cards doc)
                            = map (\<lambda>h. Inr (Some h)) hrefs) docs hrefss"
    using assms(2) by (simp only: listing_cards_in_document_order)
  have whole: "extract_house_urls net url_list = Inr (map (resolved base_url) (concat hrefss))"
    using extract_pages_resolved [OF assms(1) cards, of "[]"] by (simp add: extract_house_urls_def)
  have example: "resolved ''https://www.redfin.com'' ''/property/123''
                   = ''https://www.redfin.com/property/123''"
    by (simp add: resolved_def)
  have no_slash: "resolved base_url href = base_url @ ''/'' @ href" if "\<not> prefix ''/'' href" for href
    using that by (cases href) (simp_all add: resolved_def)
  have slash: "resolved base_url (''/'' @ href) = base_url @ ''/'' @ href" for href
    by (simp add: resolved_def)
  from whole example no_slash slash show ?thesis by blast
qed

lemma search_page_cards:
  "map card_href (filter (tag_matches ''div'' [(''class'', Is ''bottomV2'')])
                    (descendants search_page))
     = map (\<lambda>h. Inr (Some h)) [''/property/123'', ''CA/home/9'']"
  by code_simp

theorem extract_house_urls_resolves_witness:
  "extract_house_urls small_net [''https://www.redfin.com/city/1'']
     = Inr [''https://www.redfin.com/property/123'', ''https://www.redfin.com/CA/home/9'']
   \<and> \<not> prefix ''/'' ''CA/home/9''
   \<and> resolved base_url ''CA/home/9'' = base_url @ ''/'' @ ''CA/home/9''"
proof -
  have pages: "list_all2 (\<lambda>iu doc. small_net (fst iu) (snd iu) = Inr doc)
                 (enumerate 0 [''https://www.redfin.com/city/1'']) [search_page]"
    by (simp add: small_net_def)
  have cards: "list_all2
                 (\<lambda>doc hrefs.
                    map card_href (filter (tag_matches ''div'' [(''class'', Is ''bottomV2'')])
                                     (descendants doc))
                      = map (\<lambda>h. Inr (Some h)) hrefs)
                 [search_page] [[''/property/123'', ''CA/home/9'']]"
    by (simp add: search_page_cards)
  note th = extract_house_urls_resolves [OF pages cards]
  from th have "extract_house_urls small_net [''https://www.redfin.com/city/1'']
          = Inr (map (resolved base_url) (concat [[''/property/123'', ''CA/home/9'']]))"
    by (rule conjunct1)
  then have a: "extract_house_urls small_net [''https://www.redfin.com/city/1'']
     = Inr [''https://www.redfin.com/property/123'', ''https://www.redfin.com/CA/home/9'']"
    by (simp add: resolved_def base_url_def)
  have b: "\<not> prefix ''/'' ''CA/home/9''" by simp
  have "\<forall>href. \<not> prefix ''/'' href \<longrightarrow> resolved base_url href = base_url @ ''/'' @ href"
    by (rule th [THEN conjunct2, THEN conjunct2, THEN conjunct1])
  with b have c: "resolved base_url ''CA/home/9'' = base_url @ ''/'' @ ''CA/home/9''"
    by blast
  from a b c show ?thesis by blast
qed

section \<open>Properties of extract\_house\_details\<close>

subsection \<open>Dictionaries\<close>

lemma map_of_dict_update: "map_of (dict_update d ps) = map_of d ++ map_of (rev ps)"
proof (induction ps arbitrary: d)
  case Nil
  show ?case by (simp add: dict_update_def)
next
  case (Cons kv ps)
  obtain k v where kv: "kv = (k, v)" by (cases kv)
  have "map_of (dict_update d (kv # ps)) = map_of (dict_update (AList.update k v d) ps)"
    by (simp add: dict_update_def kv)
  also have "\<dots> = (map_of d)(k \<mapsto> v) ++ map_of (rev ps)"
    by (simp only: Cons.IH update_conv')
  also have "\<dots> = map_of d ++ map_of (rev (kv # ps))"
    by (rule ext) (simp add: kv map_add_def split: option.splits)
  finally show ?case .
qed

lemma map_of_rev_distinct: "distinct (map fst xs) \<Longrightarrow> map_of (rev xs) = map_of xs"
  by (subst map_of_inject_set) (simp_all add: rev_map [symmetric])



subsection \<open>What a returned record is\<close>

lemma named_fields_keys: "map fst (named_fields float_of doc p) = field_names"
  by (simp add: named_fields_def field_names_def)

lemma field_names_distinct: "distinct field_names"
  by (simp add: field_names_def)

lemma extract_house_details_Inr:
  assumes "extract_house_details float_of doc = Inr r"
  obtains table_dict p where "key_detail_table doc = Inr table_dict"
    and "poi_bound doc = Inr (Some p)"
    and "r = dict_update table_dict (named_fields float_of doc p)"
proof -
  from assms obtain table_dict bound where td: "key_detail_table doc = Inr table_dict"
    and b: "poi_bound doc = Inr bound"
    and r: "(case bound of None \<Rightarrow> Inl UnboundLocalError
             | Some p \<Rightarrow> Inr (dict_update table_dict (named_fields float_of doc p))) = Inr r"
    unfolding extract_house_details_def py_then_eq_Inr by blast
  from r obtain p where "bound = Some p"
    and "r = dict_update table_dict (named_fields float_of doc p)"
    by (cases bound) auto
  with td b that show thesis by blast
qed

lemma record_lookup:
  assumes "key_detail_table doc = Inr table_dict"
    and "r = dict_update table_dict (named_fields float_of doc p)"
  shows "map_of r k = (if k \<in> set field_names then map_of (named_fields float_of doc p) k
                       else map_of table_dict k)"
proof -
  have d: "distinct (map fst (named_fields float_of doc p))"
    by (simp add: named_fields_keys field_names_distinct)
  have m: "map_of r = map_of table_dict ++ map_of (named_fields float_of doc p)"
    by (simp add: assms(2) map_of_dict_update map_of_rev_distinct [OF d])
  have dm: "dom (map_of (named_fields float_of doc p)) = set field_names"
    using arg_cong [OF named_fields_keys, of set float_of doc p]
    by (simp add: dom_map_of_conv_image_fst)
  show ?thesis
  proof (cases "k \<in> set field_names")
    case True
    with dm obtain v where "map_of (named_fields float_of doc p) k = Some v" by blast
    with True m show ?thesis by simp
  next
    case False
    with dm have "map_of (named_fields float_of doc p) k = None" by blast
    with False m show ?thesis by (simp add: map_add_def)
  qed
qed

subsection \<open>The concrete documents, evaluated\<close>

lemma listing_doc_record:
  "extract_house_details float_unavailable listing_doc = Inr listing_record"
  by code_simp

lemma listing_doc_key_details:
  "key_detail_table listing_doc = Inr [(''Beds'', VStr ''7'' :: unit pyval)]"
  by code_simp

lemma listing_doc_beds: "beds listing_doc = (VInt 3 :: unit pyval)"
  by code_simp

lemma listing_doc_stats:
  "find ''div'' [(''class'', Is ''statsValue'')] listing_doc
     = Some (Tag ''div'' [(''class'', ''statsValue'')] [NavigableString ''$1,234,567 Est.''])"
  by code_simp


subsection \<open>Named fields and key details\<close>

text \<open>
  Claim C10. In a returned record every one of the 29 named fields holds the value
  of its own extraction rule, also when the key-detail table captured the same
  key, because \<open>l\<close> is merged into \<open>table_dict\<close> last; every other key holds what
  the key-detail table captured.
\<close>

theorem named_fields_override_key_details:
  assumes "extract_house_details float_of doc = Inr r"
  shows "\<exists>table_dict p.
           key_detail_table doc = Inr table_dict
         \<and> poi_bound doc = Inr (Some p)
         \<and> map fst (named_fields float_of doc p) = field_names
         \<and> (\<forall>k \<in> set field_names.
               map_of r k = map_of (named_fields float_of doc p) k \<and> map_of r k \<noteq> None)
         \<and> (\<forall>k. k \<notin> set field_names \<longrightarrow> map_of r k = map_of table_dict k)"
proof -
  from assms obtain table_dict p where td: "key_detail_table doc = Inr table_dict"
    and b: "poi_bound doc = Inr (Some p)"
    and r: "r = dict_update table_dict (named_fields float_of doc p)"
    by (rule extract_house_details_Inr)
  note look = record_lookup [OF td r]
  have there: "map_of (named_fields float_of doc p) k \<noteq> None" if "k \<in> set field_names" for k
  proof -
    have "dom (map_of (named_fields float_of doc p)) = set field_names"
      using arg_cong [OF named_fields_keys, of set float_of doc p]
      by (simp add: dom_map_of_conv_image_fst)
    with that show ?thesis by blast
  qed
  have named: "\<forall>k \<in> set field_names.
                 map_of r k = map_of (named_fields float_of doc p) k \<and> map_of r k \<noteq> None"
    using look there by simp
  have other: "\<forall>k. k \<notin> set field_names \<longrightarrow> map_of r k = map_of table_dict k"
    using look by simp
  from td b named other named_fields_keys show ?thesis by blast
qed

theorem named_fields_override_key_details_witness:
  "extract_house_details float_unavailable listing_doc = Inr listing_record
   \<and> key_detail_table listing_doc = Inr [(''Beds'', VStr ''7'' :: unit pyval)]
   \<and> map_of listing_record ''Beds'' = Some (VInt 3)"
proof -
  from named_fields_override_key_details [OF listing_doc_record]
  obtain p where look: "\<forall>k \<in> set field_names.
      map_of listing_record k = map_of (named_fields float_unavailable listing_doc p) k"
    by blast
  have "''Beds'' \<in> set field_names" by (simp add: field_names_def)
  with look have "map_of listing_record ''Beds''
                    = map_of (named_fields float_unavailable listing_doc p) ''Beds''"
    by blast
  also have "\<dots> = Some (beds listing_doc)" by (simp add: named_fields_def)
  finally have "map_of listing_record ''Beds'' = Some (VInt 3)"
    by (simp add: listing_doc_beds)
  with listing_doc_record listing_doc_key_details show ?thesis by blast
qed

subsection \<open>School ratings\<close>





subsection \<open>The price\<close>

lemma price_field:
  assumes "extract_house_details float_of doc = Inr r"
  shows "map_of r ''List_price'' = Some (price doc)"
proof -
  from assms obtain table_dict p where td: "key_detail_table doc = Inr table_dict"
    and r: "r = dict_update table_dict (named_fields float_of doc p)"
    by (rule extract_house_details_Inr)
  have "''List_price'' \<in> set field_names" by (simp add: field_names_def)
  with record_lookup [OF td r, of "''List_price''"]
  have "map_of r ''List_price'' = map_of (named_fields float_of doc p) ''List_price''" by simp
  then show ?thesis by (simp add: named_fields_def)
qed

text \<open>
  Claim C2, as amended. For a document whose first \<open>statsValue\<close> div has the text
  \<open>$1,234,567 Est.\<close>, the price field of a returned record is the string
  \<open>1,234,567 Est.\<close>: the text after the currency symbol as it stands, commas and
  trailing text kept, not coerced to a number.
\<close>

theorem price_is_text_after_currency_symbol:
  assumes "find ''div'' [(''class'', Is ''statsValue'')] doc = Some n"
    and "get_text n = ''$1,234,567 Est.''"
    and "extract_house_details float_of doc = Inr r"
  shows "map_of r ''List_price'' = Some (VStr ''1,234,567 Est.'')"
proof -
  have "split_sep CHR ''$'' ''$1,234,567 Est.'' = [[], ''1,234,567 Est.'']"
    by simp
  with assms(1,2) have "price doc = VStr ''1,234,567 Est.''"
    by (simp add: price_def text_of_def py_index_def)
  with price_field [OF assms(3)] show ?thesis by simp
qed

theorem price_is_text_after_currency_symbol_witness:
  "find ''div'' [(''class'', Is ''statsValue'')] listing_doc
     = Some (Tag ''div'' [(''class'', ''statsValue'')] [NavigableString ''$1,234,567 Est.''])
   \<and> get_text (Tag ''div'' [(''class'', ''statsValue'')] [NavigableString ''$1,234,567 Est.''])
       = ''$1,234,567 Est.''
   \<and> extract_house_details float_unavailable listing_doc = Inr listing_record
   \<and> map_of listing_record ''List_price'' = Some (VStr ''1,234,567 Est.'')"
proof -
  have t: "get_text (Tag ''div'' [(''class'', ''statsValue'')] [NavigableString ''$1,234,567 Est.''])
             = ''$1,234,567 Est.''"
    by simp
  from price_is_text_after_currency_symbol [OF listing_doc_stats t listing_doc_record]
    listing_doc_stats t listing_doc_record
  show ?thesis by blast
qed

text \<open>
  The claim as stated fails on \<open>listing_doc\<close>: its \<open>statsValue\<close> text is
  \<open>$1,234,567 Est.\<close>, a record is returned, and its price is not the number
  1234567.
\<close>

theorem price_is_number_counterexample:
  "find ''div'' [(''class'', Is ''statsValue'')] listing_doc
     = Some (Tag ''div'' [(''class'', ''statsValue'')] [NavigableString ''$1,234,567 Est.''])
   \<and> get_text (Tag ''div'' [(''class'', ''statsValue'')] [NavigableString ''$1,234,567 Est.''])
       = ''$1,234,567 Est.''
   \<and> extract_house_details float_unavailable listing_doc = Inr listing_record
   \<and> map_of listing_record ''List_price'' \<noteq> Some (VInt 1234567)"
proof -
  have "map_of listing_record ''List_price'' = Some (VStr ''1,234,567 Est.'')"
    by (simp add: listing_record_def)
  then have "map_of listing_record ''List_price'' \<noteq> Some (VInt 1234567)"
    by simp
  with listing_doc_stats listing_doc_record show ?thesis by simp
qed

subsection \<open>Documents on which the function raises\<close>

lemma no_widget_no_record:
  fixes float_of :: "string \<Rightarrow> exn + 'f"
  assumes "find_all ''div'' [(''class'', Is ''PointOfInterestWidget'')] doc = []"
  shows "extract_house_details float_of doc = Inl UnboundLocalError
       \<or> (\<exists>e. key_detail_table doc = (Inl e :: exn + 'f pyval py_dict)
              \<and> extract_house_details float_of doc = Inl e)"
proof (cases "key_detail_table doc :: exn + 'f pyval py_dict")
  case (Inl e)
  then show ?thesis by (simp add: extract_house_details_def)
next
  case (Inr table_dict)
  with assms show ?thesis by (simp add: extract_house_details_def poi_bound_def)
qed

lemma bare_doc_raises: "extract_house_details float_of bare_doc = Inl UnboundLocalError"
proof -
  have "find_all ''div'' [(''class'', Is ''keyDetail font-weight-roman font-size-base'')] bare_doc = []"
    by code_simp
  moreover have "find_all ''div'' [(''class'', Is ''PointOfInterestWidget'')] bare_doc = []"
    by code_simp
  ultimately show ?thesis
    by (simp add: extract_house_details_def key_detail_table_def poi_bound_def)
qed

lemma short_poi_doc_raises: "extract_house_details float_of short_poi_doc = Inl IndexError"
proof -
  have "find_all ''div'' [(''class'', Is ''keyDetail font-weight-roman font-size-base'')]
          short_poi_doc = []"
    by code_simp
  moreover have "poi_bound short_poi_doc = Inl IndexError"
    by code_simp
  ultimately show ?thesis
    by (simp add: extract_house_details_def key_detail_table_def)
qed

text \<open>
  Claim C1 does not hold of the code. On \<open>bare_doc\<close>, a document with no
  \<open>PointOfInterestWidget\<close> div, the function raises \<open>UnboundLocalError\<close>; on
  \<open>short_poi_doc\<close>, whose widget has three \<open>Tag__text\<close> divs, it raises
  \<open>IndexError\<close>. No record is returned in either case, whatever \<open>float()\<close> does.
\<close>

theorem poi_rule_is_unguarded:
  "extract_house_details float_of bare_doc = Inl UnboundLocalError
   \<and> extract_house_details float_of short_poi_doc = Inl IndexError"
  using bare_doc_raises short_poi_doc_raises by blast

section \<open>Properties of scrape\_and\_save\_property\_details\<close>

subsection \<open>One iteration\<close>

lemma step_requests:
  "requests (scrape_step float_of net disk filename batch_size st iu) = requests st @ [snd iu]"
  by (simp add: scrape_step_def Let_def to_csv_def split: sum.splits)

lemma step_details_failed:
  assumes "(\<exists>e. fetch_house_doc net i url = Inl e)
         \<or> (\<exists>d e. fetch_house_doc net i url = Inr d \<and> extract_house_details float_of d = Inl e)"
  shows "details_df (scrape_step float_of net disk filename batch_size st (i, url)) = details_df st"
  using assms by (auto simp: scrape_step_def Let_def)

lemma step_details_appended:
  assumes "fetch_house_doc net i url = Inr d" and "extract_house_details float_of d = Inr house_dict"
  shows "details_df (scrape_step float_of net disk filename batch_size st (i, url))
           = details_df st @ [house_dict]"
  using assms by (simp add: scrape_step_def Let_def to_csv_def)


lemma step_details:
  "details_df (scrape_step float_of net disk filename batch_size st iu)
     = details_df st @ appended float_of net iu"
  by (simp add: scrape_step_def appended_def Let_def to_csv_def split: sum.splits)

subsection \<open>The loop and the run\<close>

lemma loop_requests:
  "requests (scrape_loop float_of net disk filename batch_size ius st)
     = requests st @ map snd ius"
  unfolding scrape_loop_def
  by (induction ius arbitrary: st) (simp_all add: step_requests)

lemma loop_details:
  "details_df (scrape_loop float_of net disk filename batch_size ius st)
     = details_df st @ concat (map (appended float_of net) ius)"
  unfolding scrape_loop_def
  by (induction ius arbitrary: st) (simp_all add: step_details)

lemma appended_short: "length (appended float_of net iu) \<le> 1"
  by (simp add: appended_def split: sum.splits)

lemma concat_appended_short: "length (concat (map (appended float_of net) ius)) \<le> length ius"
proof (induction ius)
  case Nil
  show ?case by simp
next
  case (Cons iu ius)
  with appended_short [of float_of net iu] show ?case by simp
qed

lemma to_csv_keeps:
  "details_df (snd (to_csv disk filename st)) = details_df st
   \<and> requests (snd (to_csv disk filename st)) = requests st"
  by (simp add: to_csv_def)

lemma run_final_state:
  "snd (scrape_and_save_property_details float_of net disk fs url_list filename batch_size)
     = snd (to_csv disk filename
              (scrape_loop float_of net disk filename batch_size (enumerate 0 url_list) (start fs)))"
  by (simp add: scrape_and_save_property_details_def Let_def split: prod.splits option.splits)

lemma run_requests:
  "requests (snd (scrape_and_save_property_details float_of net disk fs url_list filename batch_size))
     = url_list"
  by (simp add: run_final_state to_csv_keeps loop_requests start_def)

lemma run_details:
  "details_df (snd (scrape_and_save_property_details float_of net disk fs url_list filename batch_size))
     = concat (map (appended float_of net) (enumerate 0 url_list))"
  by (simp add: run_final_state to_csv_keeps loop_details start_def)

lemma run_result:
  "fst (scrape_and_save_property_details float_of net disk fs url_list filename batch_size) = Inr t
   \<Longrightarrow> t = concat (map (appended float_of net) (enumerate 0 url_list))"
  by (auto simp: scrape_and_save_property_details_def Let_def to_csv_def loop_details start_def
           split: if_splits)

text \<open>
  Claim C5. An iteration whose fetch or extraction raises leaves the table as it
  was; the loop goes on regardless, so that the run requests every URL of the
  list in order; the table at the end holds, in order, the records of exactly the
  listings that were fetched and extracted, and so has at most as many rows as
  there are URLs, as has the table the call returns.
\<close>

theorem failed_listing_is_skipped:
  fixes float_of :: "string \<Rightarrow> exn + 'f"
  defines "run \<equiv> \<lambda>net disk fs url_list filename batch_size.
             scrape_and_save_property_details float_of net disk fs url_list filename batch_size"
  shows "(\<forall>st i url.
            (\<exists>e. fetch_house_doc net i url = Inl e)
            \<or> (\<exists>d e. fetch_house_doc net i url = Inr d \<and> extract_house_details float_of d = Inl e)
            \<longrightarrow> details_df (scrape_step float_of net disk filename batch_size st (i, url))
                  = details_df st)
       \<and> requests (snd (run net disk fs url_list filename batch_size)) = url_list
       \<and> details_df (snd (run net disk fs url_list filename batch_size))
           = concat (map (appended float_of net) (enumerate 0 url_list))
       \<and> length (details_df (snd (run net disk fs url_list filename batch_size))) \<le> length url_list
       \<and> (\<forall>t. fst (run net disk fs url_list filename batch_size) = Inr t
               \<longrightarrow> length t \<le> length url_list)"
proof -
  have skipped: "details_df (scrape_step float_of net disk filename batch_size st (i, url))
                   = details_df st"
    if "(\<exists>e. fetch_house_doc net i url = Inl e)
        \<or> (\<exists>d e. fetch_house_doc net i url = Inr d \<and> extract_house_details float_of d = Inl e)"
    for st i url
    using that by (rule step_details_failed)
  have bound: "length (concat (map (appended float_of net) (enumerate 0 url_list))) \<le> length url_list"
    using concat_appended_short [of float_of net "enumerate 0 url_list"] by simp
  have returned: "length t \<le> length url_list"
    if "fst (run net disk fs url_list filename batch_size) = Inr t" for t
    using that bound run_result [of float_of net disk fs url_list filename batch_size t]
    by (simp add: run_def)
  from skipped bound returned show ?thesis
    unfolding run_def by (simp add: run_requests run_details)
qed

lemma patchy_appended:
  "appended float_unavailable patchy_net (i, ''https://www.redfin.com/home/1'') = [listing_record]
   \<and> appended float_unavailable patchy_net (i, ''https://www.redfin.com/down'') = []
   \<and> appended float_unavailable patchy_net (i, ''https://www.redfin.com/bare'') = []
   \<and> appended float_unavailable patchy_net (i, ''https://www.redfin.com/home/2'') = [listing_record]"
  by (simp add: appended_def fetch_house_doc_def patchy_net_def listing_doc_record bare_doc_raises)

theorem failed_listing_is_skipped_witness:
  "fetch_house_doc patchy_net 1 ''https://www.redfin.com/down'' = Inl URLError
   \<and> details_df (scrape_step float_unavailable patchy_net disk_ok ''out.csv'' 10 (start no_files)
                   (1, ''https://www.redfin.com/down'')) = []
   \<and> requests (snd (scrape_and_save_property_details float_unavailable patchy_net disk_ok no_files
                       crawl_urls ''out.csv'' 10)) = crawl_urls
   \<and> details_df (snd (scrape_and_save_property_details float_unavailable patchy_net disk_ok no_files
                         crawl_urls ''out.csv'' 10)) = [listing_record, listing_record]
   \<and> length crawl_urls = 4"
proof -
  note th = failed_listing_is_skipped
              [of patchy_net float_unavailable disk_ok "''out.csv''" 10 no_files crawl_urls]
  have down: "fetch_house_doc patchy_net 1 ''https://www.redfin.com/down'' = Inl URLError"
    by (simp add: fetch_house_doc_def patchy_net_def)
  have "(\<exists>e. fetch_house_doc patchy_net 1 ''https://www.redfin.com/down'' = Inl e)
        \<or> (\<exists>d e. fetch_house_doc patchy_net 1 ''https://www.redfin.com/down'' = Inr d
                  \<and> extract_house_details float_unavailable d = Inl e)
        \<longrightarrow> details_df (scrape_step float_unavailable patchy_net disk_ok ''out.csv'' 10
                           (start no_files) (1, ''https://www.redfin.com/down''))
              = details_df (start no_files)"
    using th [THEN conjunct1] by blast
  with down
  have a: "details_df (scrape_step float_unavailable patchy_net disk_ok ''out.csv'' 10
                         (start no_files) (1, ''https://www.redfin.com/down'')) = []"
    by (simp add: start_def)
  have b: "requests (snd (scrape_and_save_property_details float_unavailable patchy_net disk_ok
                            no_files crawl_urls ''out.csv'' 10)) = crawl_urls"
    by (rule th [THEN conjunct2, THEN conjunct1])
  have "details_df (snd (scrape_and_save_property_details float_unavailable patchy_net disk_ok
                           no_files crawl_urls ''out.csv'' 10))
          = concat (map (appended float_unavailable patchy_net) (enumerate 0 crawl_urls))"
    by (rule th [THEN conjunct2, THEN conjunct2, THEN conjunct1])
  then have c: "details_df (snd (scrape_and_save_property_details float_unavailable patchy_net
                                   disk_ok no_files crawl_urls ''out.csv'' 10))
                  = [listing_record, listing_record]"
    by (simp add: crawl_urls_def patchy_appended)
  have d: "length crawl_urls = 4" by (simp add: crawl_urls_def)
  from down a b c d show ?thesis by blast
qed

subsection \<open>Write failures\<close>

lemma after_all_listings:
  "after_listings float_of net disk fs url_list filename batch_size (length url_list)
     = scrape_loop float_of net disk filename batch_size (enumerate 0 url_list) (start fs)"
  by (simp add: after_listings_def)

lemma run_fails_on_last_write:
  assumes "\<not> disk (writes (after_listings float_of net disk fs url_list filename batch_size
                               (length url_list)))"
  shows "fst (scrape_and_save_property_details float_of net disk fs url_list filename batch_size)
           = Inl OSError"
  using assms
  by (simp add: after_all_listings scrape_and_save_property_details_def Let_def to_csv_def)

lemma run_returns_table:
  assumes "disk (writes (after_listings float_of net disk fs url_list filename batch_size
                           (length url_list)))"
  shows "fst (scrape_and_save_property_details float_of net disk fs url_list filename batch_size)
           = Inr (concat (map (appended float_of net) (enumerate 0 url_list)))"
  using assms
  by (simp add: after_all_listings scrape_and_save_property_details_def Let_def to_csv_def
        loop_details start_def)

lemma step_checkpoint_fails:
  assumes "fetch_house_doc net i url = Inr d"
    and "extract_house_details float_of d = Inr house_dict"
    and "batch_size \<noteq> 0" and "int i mod batch_size = 0" and "\<not> disk (writes st)"
  shows "scrape_step float_of net disk filename batch_size st (i, url)
           = st\<lparr>details_df := details_df st @ [house_dict],
                requests := requests st @ [url],
                writes := Suc (writes st)\<rparr>"
  using assms by (simp add: scrape_step_def Let_def to_csv_def)

text \<open>
  Claim C4, as amended. Only the last write, after the loop, is fatal: when it
  fails the call raises, and when it succeeds the call returns the table. A
  checkpoint write that fails inside the loop is swallowed with every other
  exception of the iteration: the listing's record stays in the table, the file
  and the delay are skipped, and the run still requests every URL of the list.
\<close>

theorem write_failure_is_fatal_only_at_run_end:
  fixes float_of :: "string \<Rightarrow> exn + 'f"
  shows "(\<not> disk (writes (after_listings float_of net disk fs url_list filename batch_size
                              (length url_list)))
            \<longrightarrow> fst (scrape_and_save_property_details float_of net disk fs url_list filename
                        batch_size) = Inl OSError)
       \<and> (disk (writes (after_listings float_of net disk fs url_list filename batch_size
                           (length url_list)))
            \<longrightarrow> fst (scrape_and_save_property_details float_of net disk fs url_list filename
                        batch_size)
                  = Inr (concat (map (appended float_of net) (enumerate 0 url_list))))
       \<and> requests (snd (scrape_and_save_property_details float_of net disk fs url_list filename
                           batch_size)) = url_list
       \<and> (\<forall>st i url d house_dict.
             fetch_house_doc net i url = Inr d
             \<and> extract_house_details float_of d = Inr house_dict
             \<and> batch_size \<noteq> 0 \<and> int i mod batch_size = 0 \<and> \<not> disk (writes st)
             \<longrightarrow> scrape_step float_of net disk filename batch_size st (i, url)
                   = st\<lparr>details_df := details_df st @ [house_dict],
                        requests := requests st @ [url],
                        writes := Suc (writes st)\<rparr>)"
proof (intro conjI impI allI)
  assume "\<not> disk (writes (after_listings float_of net disk fs url_list filename batch_size
                              (length url_list)))"
  then show "fst (scrape_and_save_property_details float_of net disk fs url_list filename
                    batch_size) = Inl OSError"
    by (rule run_fails_on_last_write)
next
  assume "disk (writes (after_listings float_of net disk fs url_list filename batch_size
                          (length url_list)))"
  then show "fst (scrape_and_save_property_details float_of net disk fs url_list filename
                    batch_size)
               = Inr (concat (map (appended float_of net) (enumerate 0 url_list)))"
    by (rule run_returns_table)
next
  show "requests (snd (scrape_and_save_property_details float_of net disk fs url_list filename
                         batch_size)) = url_list"
    by (rule run_requests)
next
  fix st :: "'f run_state" and i url d and house_dict :: "'f pyval py_dict"
  assume "fetch_house_doc net i url = Inr d
          \<and> extract_house_details float_of d = Inr house_dict
          \<and> batch_size \<noteq> 0 \<and> int i mod batch_size = 0 \<and> \<not> disk (writes st)"
  then have "fetch_house_doc net i url = Inr d"
    and "extract_house_details float_of d = Inr house_dict"
    and "batch_size \<noteq> 0" and "int i mod batch_size = 0" and "\<not> disk (writes st)"
    by blast+
  then show "scrape_step float_of net disk filename batch_size st (i, url)
               = st\<lparr>details_df := details_df st @ [house_dict],
                    requests := requests st @ [url],
                    writes := Suc (writes st)\<rparr>"
    by (rule step_checkpoint_fails)
qed

lemma listing_net_step:
  "scrape_step float_unavailable listing_net disk filename batch_size st (i, url)
     = (let st2 = st\<lparr>requests := requests st @ [url],
                        details_df := details_df st @ [listing_record]\<rparr>
        in if batch_size = 0 then st2
           else if int i mod batch_size = 0
           then (case to_csv disk filename st2 of
                   (Some e, st3) \<Rightarrow> st3
                 | (None, st3) \<Rightarrow> st3\<lparr>slept := slept st3 + 3\<rparr>)
           else st2\<lparr>slept := slept st2 + 3\<rparr>)"
  by (simp add: scrape_step_def Let_def fetch_house_doc_def listing_net_def listing_doc_record)

lemma listing_net_appended: "appended float_unavailable listing_net iu = [listing_record]"
  by (simp add: appended_def fetch_house_doc_def listing_net_def listing_doc_record)

lemma two_urls_checkpoints:
  "writes (after_listings float_unavailable listing_net disk no_files two_urls ''out.csv'' 2
             (length two_urls)) = 1"
  by (simp add: after_listings_def scrape_loop_def two_urls_def start_def listing_net_step
        to_csv_def Let_def)

theorem write_failure_is_fatal_only_at_run_end_witness:
  "\<not> only_first_write_ok
        (writes (after_listings float_unavailable listing_net only_first_write_ok no_files two_urls
                   ''out.csv'' 2 (length two_urls)))
   \<and> fst (scrape_and_save_property_details float_unavailable listing_net only_first_write_ok
             no_files two_urls ''out.csv'' 2) = Inl OSError
   \<and> disk_ok (writes (after_listings float_unavailable listing_net disk_ok no_files two_urls
                        ''out.csv'' 2 (length two_urls)))
   \<and> fst (scrape_and_save_property_details float_unavailable listing_net disk_ok
             no_files two_urls ''out.csv'' 2) = Inr [listing_record, listing_record]
   \<and> \<not> first_write_fails (writes (start no_files))
   \<and> scrape_step float_unavailable listing_net first_write_fails ''out.csv'' 1 (start no_files)
         (0, ''https://www.redfin.com/home/1'')
       = (start no_files)\<lparr>details_df := [listing_record],
                            requests := [''https://www.redfin.com/home/1''],
                            writes := 1\<rparr>"
proof -
  have bad: "\<not> only_first_write_ok
                 (writes (after_listings float_unavailable listing_net only_first_write_ok no_files
                            two_urls ''out.csv'' 2 (length two_urls)))"
    by (simp add: two_urls_checkpoints only_first_write_ok_def)
  note th1 = write_failure_is_fatal_only_at_run_end
               [of only_first_write_ok float_unavailable listing_net no_files two_urls
                   "''out.csv''" 2]
  from th1 [THEN conjunct1] bad
  have a: "fst (scrape_and_save_property_details float_unavailable listing_net
                  only_first_write_ok no_files two_urls ''out.csv'' 2) = Inl OSError"
    by blast
  have good: "disk_ok (writes (after_listings float_unavailable listing_net disk_ok no_files
                                 two_urls ''out.csv'' 2 (length two_urls)))"
    by (simp add: disk_ok_def)
  note th2 = write_failure_is_fatal_only_at_run_end
               [of disk_ok float_unavailable listing_net no_files two_urls "''out.csv''" 2]
  from th2 [THEN conjunct2, THEN conjunct1] good
  have "fst (scrape_and_save_property_details float_unavailable listing_net disk_ok
               no_files two_urls ''out.csv'' 2)
          = Inr (concat (map (appended float_unavailable listing_net) (enumerate 0 two_urls)))"
    by blast
  then have b: "fst (scrape_and_save_property_details float_unavailable listing_net disk_ok
                       no_files two_urls ''out.csv'' 2) = Inr [listing_record, listing_record]"
    by (simp add: listing_net_appended two_urls_def)
  have fails: "\<not> first_write_fails (writes (start no_files))"
    by (simp add: first_write_fails_def start_def)
  have pre: "fetch_house_doc listing_net 0 ''https://www.redfin.com/home/1'' = Inr listing_doc
             \<and> extract_house_details float_unavailable listing_doc = Inr listing_record
             \<and> (1::int) \<noteq> 0 \<and> int 0 mod 1 = 0 \<and> \<not> first_write_fails (writes (start no_files))"
    using fails by (simp add: fetch_house_doc_def listing_net_def listing_doc_record)
  note th3 = write_failure_is_fatal_only_at_run_end
               [of first_write_fails float_unavailable listing_net no_files two_urls
                   "''out.csv''" 1]
  from th3 [THEN conjunct2, THEN conjunct2, THEN conjunct2, rule_format, OF pre]
  have "scrape_step float_unavailable listing_net first_write_fails ''out.csv'' 1 (start no_files)
          (0, ''https://www.redfin.com/home/1'')
        = (start no_files)\<lparr>details_df := details_df (start no_files) @ [listing_record],
                             requests := requests (start no_files) @ [''https://www.redfin.com/home/1''],
                             writes := Suc (writes (start no_files))\<rparr>" .
  then have c: "scrape_step float_unavailable listing_net first_write_fails ''out.csv'' 1
                  (start no_files) (0, ''https://www.redfin.com/home/1'')
                = (start no_files)\<lparr>details_df := [listing_record],
                                     requests := [''https://www.redfin.com/home/1''],
                                     writes := 1\<rparr>"
    by (simp add: start_def)
  from bad a good b fails c show ?thesis by blast
qed

text \<open>
  The claim as stated fails on a run over two listings with batch size 1 whose
  first write fails: the checkpoint after the first listing is attempted and
  fails (one write made, no file), yet the second listing is requested and the
  call returns both records instead of raising.
\<close>

theorem write_failure_is_fatal_counterexample:
  "\<not> first_write_fails 0
   \<and> writes (after_listings float_unavailable listing_net first_write_fails no_files two_urls
               ''out.csv'' 1 1) = 1
   \<and> files (after_listings float_unavailable listing_net first_write_fails no_files two_urls
               ''out.csv'' 1 1) ''out.csv'' = None
   \<and> requests (snd (scrape_and_save_property_details float_unavailable listing_net
                       first_write_fails no_files two_urls ''out.csv'' 1)) = two_urls
   \<and> fst (scrape_and_save_property_details float_unavailable listing_net
             first_write_fails no_files two_urls ''out.csv'' 1)
       = Inr [listing_record, listing_record]"
proof -
  have a: "\<not> first_write_fails 0" by (simp add: first_write_fails_def)
  have b: "writes (after_listings float_unavailable listing_net first_write_fails no_files two_urls
                     ''out.csv'' 1 1) = 1"
    by (simp add: after_listings_def scrape_loop_def two_urls_def start_def listing_net_step
          to_csv_def Let_def first_write_fails_def)
  have c: "files (after_listings float_unavailable listing_net first_write_fails no_files two_urls
                    ''out.csv'' 1 1) ''out.csv'' = None"
    by (simp add: after_listings_def scrape_loop_def two_urls_def start_def listing_net_step
          to_csv_def Let_def first_write_fails_def no_files_def)
  have d: "fst (scrape_and_save_property_details float_unavailable listing_net
                  first_write_fails no_files two_urls ''out.csv'' 1)
             = Inr [listing_record, listing_record]"
    by (simp add: scrape_and_save_property_details_def scrape_loop_def two_urls_def start_def
          listing_net_step to_csv_def Let_def first_write_fails_def)
  from a b c d run_requests [of float_unavailable listing_net first_write_fails no_files two_urls
                               "''out.csv''" 1]
  show ?thesis by blast
qed

subsection \<open>Checkpoints\<close>

text \<open>
  Claim C3 does not hold of the code. With batch size 2 and three listings that
  all succeed on a disk that never fails, the table is written after the first
  listing (position 0), not after the second: once two listings are processed the
  table has two records and the file still holds one.
\<close>

theorem checkpoint_comes_one_listing_early:
  "details_df (after_listings float_unavailable listing_net disk_ok no_files home_urls
                 ''out.csv'' 2 1) = [listing_record]
   \<and> files (after_listings float_unavailable listing_net disk_ok no_files home_urls
               ''out.csv'' 2 1) ''out.csv'' = Some [listing_record]
   \<and> details_df (after_listings float_unavailable listing_net disk_ok no_files home_urls
                   ''out.csv'' 2 2) = [listing_record, listing_record]
   \<and> files (after_listings float_unavailable listing_net disk_ok no_files home_urls
               ''out.csv'' 2 2) ''out.csv'' = Some [listing_record]"
  by (simp add: after_listings_def scrape_loop_def home_urls_def start_def listing_net_step
        to_csv_def Let_def disk_ok_def no_files_def)

end
